theory Spec2Isabelle
  imports Complex_Main "HOL-Library.List_Lexorder" "HOL-Library.Char_ord" "HOL-Library.Multiset"
    "HOL-Library.Product_Lexorder"
begin

section \<open>Flashcard scheduler of main.py: data model\<close>

text \<open>
  The program keeps three module-level objects, all derived from \<^verbatim>\<open>progress.json\<close>:
  \<^verbatim>\<open>progress_data\<close> (the decoded JSON object), \<^verbatim>\<open>known_terms\<close> (a Python set) and
  \<^verbatim>\<open>scheduler\<close> (a dict from term to its scheduling entry).

  Modelling decisions, stated once:
  \<^item> Python \<^verbatim>\<open>int\<close> is \<^typ>\<open>int\<close>; Python \<^verbatim>\<open>float\<close> is \<^typ>\<open>real\<close>, that is, arithmetic
    on the ease factor is exact (no rounding, no NaN, no infinity).
  \<^item> Python \<^verbatim>\<open>str\<close> is \<^typ>\<open>string\<close> with the lexicographic order on characters.
  \<^item> A dict is a map; a key that \<^verbatim>\<open>.get\<close> may find absent is an \<open>option\<close>. An entry of
    the scheduler dict has the keys \<^verbatim>\<open>interval\<close>, \<^verbatim>\<open>repetitions\<close> and \<^verbatim>\<open>ef\<close>, which
    \<^verbatim>\<open>schedule_next\<close> reads by subscript, and may lack \<^verbatim>\<open>next_due\<close>.
  \<^item> The file system is a map from paths to file contents of an arbitrary type \<open>'txt\<close>;
    \<^verbatim>\<open>json.dump\<close> and \<^verbatim>\<open>json.load\<close> are parameters of the functions that call them.
    Writing a file always succeeds in the model.
  \<^item> \<^verbatim>\<open>(datetime.now() + timedelta(days=interval)).isoformat()\<close> is a parameter
    \<open>iso_after\<close> of type \<^typ>\<open>int \<Rightarrow> string option\<close>: the timestamp for a given number of
    days at the moment of the call, \<open>None\<close> where Python raises \<^verbatim>\<open>OverflowError\<close>
    (a date beyond year 9999); \<open>py_clock\<close> below is the clock of \<^verbatim>\<open>datetime\<close>.
\<close>

datatype py_error = OverflowError | JSONDecodeError

record sched_entry =
  interval :: int
  repetitions :: int
  ef :: real
  next_due :: "string option"

type_synonym sched_map = "string \<rightharpoonup> sched_entry"

record snapshot =
  snap_known_terms :: "string list option"
  snap_scheduler :: "sched_map option"

record 'txt app_state =
  known_terms :: "string set"
  scheduler :: sched_map
  progress_data :: snapshot
  fs :: "string \<rightharpoonup> 'txt"

definition PROGRESS_PATH :: string where
  "PROGRESS_PATH = ''progress.json''"

subsection \<open>Persistence: \<^verbatim>\<open>load_progress\<close>, \<^verbatim>\<open>save_progress\<close> and the start of the script\<close>

definition load_progress ::
  "('txt \<Rightarrow> py_error + snapshot) \<Rightarrow> (string \<rightharpoonup> 'txt) \<Rightarrow> py_error + snapshot" where
  "load_progress json_load files =
     (case files PROGRESS_PATH of
        Some txt \<Rightarrow> json_load txt
      | None \<Rightarrow> Inr \<lparr>snap_known_terms = Some [], snap_scheduler = Some Map.empty\<rparr>)"

definition save_progress ::
  "(snapshot \<Rightarrow> 'txt) \<Rightarrow> snapshot \<Rightarrow> (string \<rightharpoonup> 'txt) \<Rightarrow> (string \<rightharpoonup> 'txt)" where
  "save_progress json_dump data files = files(PROGRESS_PATH \<mapsto> json_dump data)"

text \<open>
  Lines 72 to 74: the three module-level objects.
  \<^verbatim>\<open>progress_data.get("known_terms", [])\<close> and \<^verbatim>\<open>progress_data.get("scheduler", {})\<close>
  supply a default for an absent key.
\<close>

definition get_known_terms :: "snapshot \<Rightarrow> string list" where
  "get_known_terms pd = (case snap_known_terms pd of None \<Rightarrow> [] | Some ks \<Rightarrow> ks)"

definition get_scheduler :: "snapshot \<Rightarrow> sched_map" where
  "get_scheduler pd = (case snap_scheduler pd of None \<Rightarrow> Map.empty | Some m \<Rightarrow> m)"

definition startup ::
  "('txt \<Rightarrow> py_error + snapshot) \<Rightarrow> (string \<rightharpoonup> 'txt) \<Rightarrow> py_error + 'txt app_state" where
  "startup json_load files =
     (case load_progress json_load files of
        Inl e \<Rightarrow> Inl e
      | Inr pd \<Rightarrow>
          Inr \<lparr>known_terms = set (get_known_terms pd),
               scheduler = get_scheduler pd,
               progress_data = pd,
               fs = files\<rparr>)"

subsection \<open>\<^verbatim>\<open>schedule_next\<close>\<close>

text \<open>Python's \<^verbatim>\<open>int(x)\<close> on a float truncates toward zero.\<close>

definition py_int :: "real \<Rightarrow> int" where
  "py_int x = (if 0 \<le> x then \<lfloor>x\<rfloor> else \<lceil>x\<rceil>)"

text \<open>
  \<^verbatim>\<open>scheduler.get(term, {"interval": 0, "repetitions": 0, "ef": 2.5})\<close>: the default
  dict has no \<^verbatim>\<open>next_due\<close> key.
\<close>

definition get_entry :: "sched_map \<Rightarrow> string \<Rightarrow> sched_entry" where
  "get_entry m trm =
     (case m trm of
        Some e \<Rightarrow> e
      | None \<Rightarrow> \<lparr>interval = 0, repetitions = 0, ef = 2.5, next_due = None\<rparr>)"

definition schedule_next ::
  "(snapshot \<Rightarrow> 'txt) \<Rightarrow> (int \<Rightarrow> string option) \<Rightarrow> string \<Rightarrow> int \<Rightarrow> 'txt app_state
     \<Rightarrow> py_error + 'txt app_state" where
  "schedule_next json_dump iso_after trm quality st =
     (let entry = get_entry (scheduler st) trm;
          interval0 = interval entry;
          repetitions0 = repetitions entry;
          ef0 = ef entry;
          (interval1, repetitions1, ef1) =
            (if quality < 3 then (1, 0, ef0)
             else
               let ef' = max 1.3 (ef0 + (0.1 - of_int (5 - quality) * (0.08 + of_int (5 - quality) * 0.02)));
                   repetitions' = repetitions0 + 1
               in (if repetitions' = 1 then 1
                   else if repetitions' = 2 then 6
                   else py_int (of_int interval0 * ef'),
                   repetitions', ef'))
      in case iso_after interval1 of
           None \<Rightarrow> Inl OverflowError
         | Some nd \<Rightarrow>
             let scheduler' = (scheduler st)(trm \<mapsto>
                   \<lparr>interval = interval1, repetitions = repetitions1, ef = ef1, next_due = Some nd\<rparr>);
                 pd' = (progress_data st)\<lparr>snap_scheduler := Some scheduler'\<rparr>
             in Inr (st\<lparr>scheduler := scheduler',
                        progress_data := pd',
                        fs := save_progress json_dump pd' (fs st)\<rparr>))"

text \<open>
  The clock as Python's \<^verbatim>\<open>datetime\<close> gives it: \<open>today\<close> is the proleptic Gregorian
  ordinal of the current date (1 for 0001-01-01, at most 3652059 for 9999-12-31);
  \<^verbatim>\<open>timedelta(days=n)\<close> raises \<^verbatim>\<open>OverflowError\<close> beyond 999999999 days either way, and
  the sum raises it when the date leaves that range. \<open>isoformat\<close> renders the date
  reached (with the unchanged time of day) and stays a parameter.
\<close>

definition py_clock :: "(int \<Rightarrow> string) \<Rightarrow> int \<Rightarrow> int \<Rightarrow> string option" where
  "py_clock isoformat today days =
     (if \<bar>days\<bar> \<le> 999999999 \<and> 1 \<le> today + days \<and> today + days \<le> 3652059
      then Some (isoformat (today + days))
      else None)"

text \<open>
  A sequence of calls, each with its own term, quality and clock. A call that raises has
  not yet touched any object (the exception comes from line 100, before the assignments),
  so the state it leaves is the state it found.
\<close>

fun schedule_calls ::
  "(snapshot \<Rightarrow> 'txt) \<Rightarrow> (string \<times> int \<times> (int \<Rightarrow> string option)) list \<Rightarrow> 'txt app_state
     \<Rightarrow> 'txt app_state" where
  "schedule_calls json_dump [] st = st"
| "schedule_calls json_dump ((trm, quality, iso_after) # calls) st =
     (case schedule_next json_dump iso_after trm quality st of
        Inl e \<Rightarrow> schedule_calls json_dump calls st
      | Inr st' \<Rightarrow> schedule_calls json_dump calls st')"

text \<open>The ease factor of every entry of a scheduler dict is at least 1.3.\<close>

definition ef_ok :: "sched_map \<Rightarrow> bool" where
  "ef_ok m = (\<forall>t e. m t = Some e \<longrightarrow> 1.3 \<le> ef e)"

definition snap_ef_ok :: "snapshot \<Rightarrow> bool" where
  "snap_ef_ok pd = ef_ok (get_scheduler pd)"

subsection \<open>Known-set buttons and the reset button\<close>

text \<open>
  Lines 388 to 396 and 130 to 135. \<^verbatim>\<open>list(known_terms)\<close> lists a Python set in an
  order the language does not fix; the conversion is the parameter \<open>py_list\<close>.
\<close>

definition mark_known ::
  "(snapshot \<Rightarrow> 'txt) \<Rightarrow> (string set \<Rightarrow> string list) \<Rightarrow> string \<Rightarrow> 'txt app_state
     \<Rightarrow> 'txt app_state" where
  "mark_known json_dump py_list choice st =
     (let known' = insert choice (known_terms st);
          pd' = (progress_data st)\<lparr>snap_known_terms := Some (py_list known')\<rparr>
      in st\<lparr>known_terms := known',
            progress_data := pd',
            fs := save_progress json_dump pd' (fs st)\<rparr>)"

definition mark_unknown ::
  "(snapshot \<Rightarrow> 'txt) \<Rightarrow> (string set \<Rightarrow> string list) \<Rightarrow> string \<Rightarrow> 'txt app_state
     \<Rightarrow> 'txt app_state" where
  "mark_unknown json_dump py_list choice st =
     (let known' = known_terms st - {choice};
          pd' = (progress_data st)\<lparr>snap_known_terms := Some (py_list known')\<rparr>
      in st\<lparr>known_terms := known',
            progress_data := pd',
            fs := save_progress json_dump pd' (fs st)\<rparr>)"

definition clear_all_progress :: "(snapshot \<Rightarrow> 'txt) \<Rightarrow> 'txt app_state \<Rightarrow> 'txt app_state" where
  "clear_all_progress json_dump st =
     (let pd' = (progress_data st)\<lparr>snap_known_terms := Some [], snap_scheduler := Some Map.empty\<rparr>
      in st\<lparr>known_terms := {},
            scheduler := Map.empty,
            progress_data := pd',
            fs := save_progress json_dump pd' (fs st)\<rparr>)"

text \<open>
  The module-level \<^verbatim>\<open>scheduler\<close> and the \<^verbatim>\<open>"scheduler"\<close> entry of
  \<^verbatim>\<open>progress_data\<close> hold the same content: true after line 74, and kept by every
  operation above.
\<close>

definition scheduler_in_sync :: "'txt app_state \<Rightarrow> bool" where
  "scheduler_in_sync st = (get_scheduler (progress_data st) = scheduler st)"

subsection \<open>Sidebar filters: tags, week, due\<close>

text \<open>
  A catalog record is a JSON object; the filters read the keys \<^verbatim>\<open>term\<close>, \<^verbatim>\<open>tags\<close> and
  \<^verbatim>\<open>week\<close>, the last two through \<^verbatim>\<open>.get\<close>. All other keys ride along in the
  extension part of the record.
\<close>

record term_record =
  term_name :: string
  tags :: "string list option"
  week :: "int option"

text \<open>\<^verbatim>\<open>e.get("tags", [])\<close>\<close>

definition get_tags :: "'a term_record_scheme \<Rightarrow> string list" where
  "get_tags e = (case tags e of None \<Rightarrow> [] | Some ts \<Rightarrow> ts)"

definition filtered_tags_terms ::
  "string list \<Rightarrow> 'a term_record_scheme list \<Rightarrow> 'a term_record_scheme list" where
  "filtered_tags_terms selected_tags terms_list =
     (if selected_tags \<noteq> []
      then filter (\<lambda>e. set (get_tags e) \<inter> set selected_tags \<noteq> {}) terms_list
      else terms_list)"

text \<open>
  The select box offers \<^verbatim>\<open>["All"] + [str(w) for w in all_weeks]\<close> and the script reads
  the choice back with \<^verbatim>\<open>int(selected_week)\<close>; as \<^verbatim>\<open>int(str(w)) == w\<close>, the choice is
  modelled as either \<open>All\<close> or the week number itself. The offered weeks use
  \<^verbatim>\<open>entry.get("week", 0)\<close>, the filter uses \<^verbatim>\<open>e.get("week") == w\<close>.
\<close>

datatype week_choice = All | Week int

definition all_weeks :: "'a term_record_scheme list \<Rightarrow> int list" where
  "all_weeks terms_list =
     sorted_list_of_set ((\<lambda>e. case week e of None \<Rightarrow> 0 | Some w \<Rightarrow> w) ` set terms_list)"

definition week_options :: "'a term_record_scheme list \<Rightarrow> week_choice list" where
  "week_options terms_list = All # map Week (all_weeks terms_list)"

definition week_filtered ::
  "week_choice \<Rightarrow> 'a term_record_scheme list \<Rightarrow> 'a term_record_scheme list" where
  "week_filtered selected_week tag_filtered =
     (case selected_week of
        All \<Rightarrow> tag_filtered
      | Week w \<Rightarrow> filter (\<lambda>e. week e = Some w) tag_filtered)"

text \<open>\<^verbatim>\<open>scheduler.get(e["term"], {}).get("next_due", "")\<close>\<close>

definition get_next_due :: "sched_map \<Rightarrow> string \<Rightarrow> string" where
  "get_next_due sched trm =
     (case sched trm of
        None \<Rightarrow> ''''
      | Some entry \<Rightarrow> (case next_due entry of None \<Rightarrow> '''' | Some d \<Rightarrow> d))"

definition filtered_terms ::
  "bool \<Rightarrow> string \<Rightarrow> sched_map \<Rightarrow> 'a term_record_scheme list \<Rightarrow> 'a term_record_scheme list" where
  "filtered_terms due_only now_iso sched week_filtered_terms =
     (if due_only
      then filter (\<lambda>e. get_next_due sched (term_name e) \<le> now_iso) week_filtered_terms
      else week_filtered_terms)"

text \<open>Lines 188 to 239 in sequence: the value of \<^verbatim>\<open>filtered_terms\<close> the two modes use.\<close>

definition select_terms ::
  "'a term_record_scheme list \<Rightarrow> string list \<Rightarrow> week_choice \<Rightarrow> bool \<Rightarrow> string \<Rightarrow> sched_map
     \<Rightarrow> 'a term_record_scheme list" where
  "select_terms terms_list selected_tags selected_week due_only now_iso sched =
     filtered_terms due_only now_iso sched
       (week_filtered selected_week (filtered_tags_terms selected_tags terms_list))"

text \<open>
  The selection criteria in the words of the specification: a term matches a tag set if
  it has at least one tag in the set, the empty set meaning no restriction; the week is an
  exact match on the record's week, which is optional in the catalog with default 0, and
  no selected week means no restriction; with \<open>dueOnly\<close> a term is kept if its
  \<open>next_due\<close> is at most now, a term without scheduling entry being always due.
\<close>

definition spec_tag_match :: "string list \<Rightarrow> 'a term_record_scheme \<Rightarrow> bool" where
  "spec_tag_match selected_tags e =
     (selected_tags = [] \<or> (\<exists>t \<in> set (get_tags e). t \<in> set selected_tags))"

definition spec_week :: "'a term_record_scheme \<Rightarrow> int" where
  "spec_week e = (case week e of None \<Rightarrow> 0 | Some w \<Rightarrow> w)"

definition spec_week_match :: "week_choice \<Rightarrow> 'a term_record_scheme \<Rightarrow> bool" where
  "spec_week_match selected_week e =
     (case selected_week of All \<Rightarrow> True | Week w \<Rightarrow> spec_week e = w)"

definition spec_due :: "string \<Rightarrow> sched_map \<Rightarrow> 'a term_record_scheme \<Rightarrow> bool" where
  "spec_due now_iso sched e =
     (case sched (term_name e) of
        None \<Rightarrow> True
      | Some entry \<Rightarrow> (case next_due entry of None \<Rightarrow> True | Some d \<Rightarrow> d \<le> now_iso))"

text \<open>The week test as the filter makes it: the key must be there.\<close>

definition week_key_match :: "week_choice \<Rightarrow> 'a term_record_scheme \<Rightarrow> bool" where
  "week_key_match selected_week e =
     (case selected_week of All \<Rightarrow> True | Week w \<Rightarrow> week e = Some w)"

subsection \<open>Quiz mode: the similarity ratio of an answer\<close>




















subsection \<open>Notions used in the proofs about \<^verbatim>\<open>SequenceMatcher\<close>\<close>











subsection \<open>Concrete states and inputs used to instantiate the theorems\<close>

text \<open>
  In the instances the file content is the snapshot itself (\<open>json_dump = id\<close>,
  \<open>json_load = Inr\<close>) and the clock returns a fixed timestamp.
\<close>

definition fresh_state :: "snapshot app_state" where
  "fresh_state =
     \<lparr>known_terms = {}, scheduler = Map.empty,
      progress_data = \<lparr>snap_known_terms = Some [], snap_scheduler = Some Map.empty\<rparr>,
      fs = Map.empty\<rparr>"

definition reviewed_state :: "snapshot app_state" where
  "reviewed_state =
     (let m = [''X'' \<mapsto> \<lparr>interval = 6, repetitions = 2, ef = 2.7,
                           next_due = Some ''2026-11-09T09:00:00''\<rparr>];
          pd = \<lparr>snap_known_terms = Some [''Z''], snap_scheduler = Some m\<rparr>
      in \<lparr>known_terms = {''Z''}, scheduler = m, progress_data = pd,
          fs = [PROGRESS_PATH \<mapsto> pd]\<rparr>)"

definition const_clock :: "string \<Rightarrow> int \<Rightarrow> string option" where
  "const_clock nd days = Some nd"

definition demo_catalog :: "term_record list" where
  "demo_catalog =
     [\<lparr>term_name = ''tariff'', tags = Some [''econ'', ''trade''], week = Some 3\<rparr>,
      \<lparr>term_name = ''veto'', tags = Some [''law''], week = Some 3\<rparr>,
      \<lparr>term_name = ''subsidy'', tags = Some [''econ''], week = Some 4\<rparr>,
      \<lparr>term_name = ''quota'', tags = Some [''econ''], week = Some 3\<rparr>,
      \<lparr>term_name = ''lobby'', tags = None, week = None\<rparr>]"

definition demo_sched :: sched_map where
  "demo_sched =
     [''tariff'' \<mapsto> \<lparr>interval = 6, repetitions = 2, ef = 2.6,
                        next_due = Some ''2026-11-09T09:00:00''\<rparr>,
      ''quota'' \<mapsto> \<lparr>interval = 1, repetitions = 1, ef = 2.5,
                        next_due = Some ''2026-11-02T09:00:00''\<rparr>]"

section \<open>Properties of \<^verbatim>\<open>schedule_next\<close>\<close>

subsection \<open>The two branches written out\<close>

lemma schedule_next_lapse_eq:
  assumes "quality < 3" and "iso_after 1 = Some nd"
  shows "schedule_next json_dump iso_after trm quality st =
    (let scheduler' = (scheduler st)(trm \<mapsto>
           \<lparr>interval = 1, repetitions = 0, ef = ef (get_entry (scheduler st) trm), next_due = Some nd\<rparr>);
         pd' = (progress_data st)\<lparr>snap_scheduler := Some scheduler'\<rparr>
     in Inr (st\<lparr>scheduler := scheduler', progress_data := pd',
                fs := save_progress json_dump pd' (fs st)\<rparr>))"
  using assms by (simp add: schedule_next_def Let_def)

lemma schedule_next_success_eq:
  assumes "\<not> quality < 3"
  shows "schedule_next json_dump iso_after trm quality st =
    (let e0 = get_entry (scheduler st) trm;
         ef' = max 1.3 (ef e0 + (0.1 - of_int (5 - quality) * (0.08 + of_int (5 - quality) * 0.02)));
         r' = repetitions e0 + 1;
         i' = (if r' = 1 then 1 else if r' = 2 then 6 else py_int (of_int (interval e0) * ef'))
     in case iso_after i' of
          None \<Rightarrow> Inl OverflowError
        | Some nd \<Rightarrow>
           let scheduler' = (scheduler st)(trm \<mapsto>
                  \<lparr>interval = i', repetitions = r', ef = ef', next_due = Some nd\<rparr>);
               pd' = (progress_data st)\<lparr>snap_scheduler := Some scheduler'\<rparr>
           in Inr (st\<lparr>scheduler := scheduler', progress_data := pd',
                fs := save_progress json_dump pd' (fs st)\<rparr>))"
  using assms by (simp add: schedule_next_def Let_def)


lemma startup_absent:
  "files PROGRESS_PATH = None \<Longrightarrow>
   startup json_load files =
     Inr \<lparr>known_terms = {}, scheduler = Map.empty,
          progress_data = \<lparr>snap_known_terms = Some [], snap_scheduler = Some Map.empty\<rparr>,
          fs = files\<rparr>"
  by (simp add: startup_def load_progress_def get_known_terms_def get_scheduler_def)

lemma startup_fresh_state: "startup Inr Map.empty = Inr fresh_state"
  by (simp add: startup_absent fresh_state_def)

subsection \<open>Lapse\<close>

text \<open>
  Claim C1. For every term and every prior scheduling state, the synthesized default of
  an absent entry included, \<^verbatim>\<open>schedule_next\<close> with quality below 3 stores an entry with
  repetitions 0, interval 1 and the ease factor the entry had before the call; the entry
  is then in the module-level dict, in \<^verbatim>\<open>progress_data\<close> and in the file written. The
  only other outcome is the \<^verbatim>\<open>OverflowError\<close> of the date arithmetic, when the clock
  cannot produce the timestamp one day ahead.
\<close>

theorem schedule_next_lapse:
  assumes "quality < 3"
  shows "(iso_after 1 = None \<longrightarrow>
            schedule_next json_dump iso_after trm quality st = Inl OverflowError) \<and>
         (\<forall>nd. iso_after 1 = Some nd \<longrightarrow>
            (\<exists>st'. schedule_next json_dump iso_after trm quality st = Inr st' \<and>
               (\<exists>e. scheduler st' trm = Some e \<and> repetitions e = 0 \<and> interval e = 1 \<and>
                     ef e = ef (get_entry (scheduler st) trm) \<and> next_due e = Some nd) \<and>
               snap_scheduler (progress_data st') = Some (scheduler st') \<and>
               fs st' PROGRESS_PATH = Some (json_dump (progress_data st'))))"
  using assms
  by (auto simp: schedule_next_lapse_eq Let_def save_progress_def schedule_next_def)

theorem schedule_next_lapse_witness:
  "(0::int) < 3 \<and>
   (\<exists>st'. schedule_next id (const_clock ''2026-11-04T09:00:00'') ''X'' 0 reviewed_state = Inr st' \<and>
      (\<exists>e. scheduler st' ''X'' = Some e \<and> repetitions e = 0 \<and> interval e = 1 \<and> ef e = 2.7 \<and>
            next_due e = Some ''2026-11-04T09:00:00'') \<and>
      snap_scheduler (progress_data st') = Some (scheduler st') \<and>
      fs st' PROGRESS_PATH = Some (id (progress_data st')))"
  using schedule_next_lapse [of 0 "const_clock ''2026-11-04T09:00:00''" id "''X''" reviewed_state]
  by (simp add: const_clock_def reviewed_state_def get_entry_def Let_def)

subsection \<open>Success\<close>



text \<open>
  When the date arithmetic overflows. With Python's range of dates (ordinals 1 to
  3652059) the interval that follows thirteen perfect answers in a row can still be
  scheduled from any day before year 2567, and the fourteenth perfect answer raises on
  every day.
\<close>

lemma thirteen_perfect_answers:
  "scheduler (schedule_calls id (replicate 13 (''X'', 5, const_clock ''d'')) fresh_state) ''X'' =
     Some \<lparr>interval = 2714533, repetitions = 13, ef = 3.8, next_due = Some ''d''\<rparr>"
  by (simp add: eval_nat_numeral schedule_next_def fresh_state_def const_clock_def get_entry_def
      save_progress_def py_int_def Let_def)

lemma schedule_next_date_overflow:
  assumes "scheduler st trm = Some \<lparr>interval = 2714533, repetitions = 13, ef = 3.8, next_due = d\<rparr>"
    and "1 \<le> today"
  shows "schedule_next json_dump (py_clock isoformat today) trm 5 st = Inl OverflowError"
  using assms by (simp add: schedule_next_def get_entry_def py_int_def py_clock_def Let_def)

text \<open>
  The stored intervals stay non-negative: 1, 6, or the truncation of a non-negative
  product.
\<close>

lemma interval_nonneg:
  assumes "\<forall>t e. scheduler st t = Some e \<longrightarrow> 0 \<le> interval e"
    and "schedule_next json_dump iso_after trm quality st = Inr st'"
  shows "\<forall>t e. scheduler st' t = Some e \<longrightarrow> 0 \<le> interval e"
proof (cases "quality < 3")
  case True
  with assms(2) obtain nd where "iso_after 1 = Some nd"
    by (cases "iso_after 1") (simp_all add: schedule_next_def Let_def)
  with True assms show ?thesis
    by (auto simp: schedule_next_lapse_eq Let_def split: if_splits)
next
  case False
  define e0 where "e0 = get_entry (scheduler st) trm"
  define ef' where
    "ef' = max 1.3 (ef e0 + (0.1 - of_int (5 - quality) * (0.08 + of_int (5 - quality) * 0.02)))"
  have "0 \<le> interval e0"
    using assms(1) by (auto simp: e0_def get_entry_def split: option.splits)
  moreover have "0 \<le> ef'" by (simp add: ef'_def)
  ultimately have "0 \<le> of_int (interval e0) * ef'" by simp
  then have "0 \<le> py_int (of_int (interval e0) * ef')"
    by (simp add: py_int_def)
  with False assms show ?thesis
    by (auto simp: schedule_next_success_eq Let_def e0_def ef'_def split: option.splits if_splits)
qed

subsection \<open>Lower bound of the ease factor\<close>

lemma get_entry_ef_ok: "ef_ok m \<Longrightarrow> 1.3 \<le> ef (get_entry m trm)"
  by (auto simp: ef_ok_def get_entry_def split: option.splits)

lemma ef_ok_upd: "ef_ok m \<Longrightarrow> 1.3 \<le> ef e \<Longrightarrow> ef_ok (m(trm \<mapsto> e))"
  by (simp add: ef_ok_def)

lemma schedule_next_ef_ok:
  assumes "ef_ok (scheduler st)"
    and "schedule_next json_dump iso_after trm quality st = Inr st'"
  shows "ef_ok (scheduler st') \<and> snap_scheduler (progress_data st') = Some (scheduler st')"
proof (cases "quality < 3")
  case True
  with assms(2) obtain nd where nd: "iso_after 1 = Some nd"
    by (cases "iso_after 1") (simp_all add: schedule_next_def Let_def)
  define e where "e = \<lparr>interval = 1, repetitions = 0, ef = ef (get_entry (scheduler st) trm),
    next_due = Some nd\<rparr>"
  have "1.3 \<le> ef e"
    using get_entry_ef_ok [OF assms(1), of trm] by (simp add: e_def)
  then have "ef_ok ((scheduler st)(trm \<mapsto> e))"
    using assms(1) by (rule ef_ok_upd [rotated])
  moreover have "scheduler st' = (scheduler st)(trm \<mapsto> e)"
    and "snap_scheduler (progress_data st') = Some (scheduler st')"
    using assms(2) True nd by (auto simp: schedule_next_lapse_eq Let_def e_def)
  ultimately show ?thesis by simp
next
  case False
  define ef' where "ef' = max 1.3 (ef (get_entry (scheduler st) trm)
    + (0.1 - of_int (5 - quality) * (0.08 + of_int (5 - quality) * 0.02)))"
  have ef': "1.3 \<le> ef'" by (simp add: ef'_def)
  from assms(2) False obtain i r nd where
    "scheduler st' = (scheduler st)(trm \<mapsto>
       \<lparr>interval = i, repetitions = r, ef = ef', next_due = Some nd\<rparr>)"
    and "snap_scheduler (progress_data st') = Some (scheduler st')"
    by (auto simp: schedule_next_success_eq Let_def ef'_def split: option.splits)
  moreover have "ef_ok ((scheduler st)(trm \<mapsto>
       \<lparr>interval = i, repetitions = r, ef = ef', next_due = Some nd\<rparr>))"
    using assms(1) ef' by (intro ef_ok_upd) simp_all
  ultimately show ?thesis by simp
qed

lemma startup_ef_ok:
  assumes "startup json_load files = Inr st"
  shows "ef_ok (scheduler st) = snap_ef_ok (progress_data st)"
  using assms by (auto simp: startup_def snap_ef_ok_def split: sum.splits)

text \<open>
  Claim C3. Starting from the default state or from any loaded state in which every ease
  factor is at least 1.3, after every finite sequence of \<^verbatim>\<open>schedule_next\<close> calls, with
  arbitrary terms and arbitrary integer qualities, every ease factor stored in the
  scheduler dict and in the snapshot is at least 1.3. (The state after \<open>startup\<close> on an
  absent file has no entry at all, and the default entry carries 2.5.)
\<close>

theorem ease_factor_lower_bound:
  assumes "ef_ok (scheduler st)" and "snap_ef_ok (progress_data st)"
  shows "ef_ok (scheduler (schedule_calls json_dump calls st)) \<and>
         snap_ef_ok (progress_data (schedule_calls json_dump calls st))"
  using assms
proof (induction calls arbitrary: st)
  case Nil
  then show ?case by simp
next
  case (Cons c calls)
  obtain trm quality iso_after where c: "c = (trm, quality, iso_after)"
    by (cases c) auto
  show ?case
  proof (cases "schedule_next json_dump iso_after trm quality st")
    case (Inl e)
    with Cons c show ?thesis by simp
  next
    case (Inr st')
    from schedule_next_ef_ok [OF Cons.prems(1) Inr]
    have "ef_ok (scheduler st')" and "snap_ef_ok (progress_data st')"
      by (simp_all add: snap_ef_ok_def get_scheduler_def)
    with Cons.IH [of st'] Inr c show ?thesis by simp
  qed
qed

theorem ease_factor_lower_bound_witness:
  "ef_ok (scheduler fresh_state) \<and> snap_ef_ok (progress_data fresh_state) \<and>
   ef_ok (scheduler (schedule_calls id
     [(''X'', 5, const_clock ''a''), (''X'', 3, const_clock ''b''), (''X'', 3, const_clock ''c''),
      (''Y'', 0, const_clock ''d''), (''X'', 9, const_clock ''e''), (''Y'', - 4, const_clock ''f''),
      (''X'', 3, Map.empty)] fresh_state)) \<and>
   snap_ef_ok (progress_data (schedule_calls id
     [(''X'', 5, const_clock ''a''), (''X'', 3, const_clock ''b''), (''X'', 3, const_clock ''c''),
      (''Y'', 0, const_clock ''d''), (''X'', 9, const_clock ''e''), (''Y'', - 4, const_clock ''f''),
      (''X'', 3, Map.empty)] fresh_state))"
  using ease_factor_lower_bound [of fresh_state id
     "[(''X'', 5, const_clock ''a''), (''X'', 3, const_clock ''b''), (''X'', 3, const_clock ''c''),
      (''Y'', 0, const_clock ''d''), (''X'', 9, const_clock ''e''), (''Y'', - 4, const_clock ''f''),
      (''X'', 3, Map.empty)]"]
  by (simp add: fresh_state_def ef_ok_def snap_ef_ok_def get_scheduler_def)

subsection \<open>Qualities outside 0 to 5\<close>




section \<open>Properties of the sidebar filters\<close>

lemma filtered_tags_terms_filter:
  "filtered_tags_terms selected_tags terms_list = filter (spec_tag_match selected_tags) terms_list"
proof (cases "selected_tags = []")
  case True
  then show ?thesis by (simp add: filtered_tags_terms_def spec_tag_match_def)
next
  case False
  have "(set (get_tags e) \<inter> set selected_tags \<noteq> {}) = spec_tag_match selected_tags e" for e :: "'a term_record_scheme"
    using False by (auto simp: spec_tag_match_def)
  with False show ?thesis by (simp add: filtered_tags_terms_def)
qed

lemma week_filtered_filter:
  "week_filtered selected_week xs = filter (week_key_match selected_week) xs"
  by (cases selected_week) (simp_all add: week_filtered_def week_key_match_def [abs_def])

lemma get_next_due_le: "(get_next_due sched (term_name e) \<le> now_iso) = spec_due now_iso sched e"
  by (simp add: get_next_due_def spec_due_def split: option.splits)

lemma filtered_terms_filter:
  "filtered_terms due_only now_iso sched xs = filter (\<lambda>e. due_only \<longrightarrow> spec_due now_iso sched e) xs"
  by (simp add: filtered_terms_def get_next_due_le)

text \<open>
  The three filters are one filter by the conjunction of the three tests, in the
  catalog's order; the result set depends on the catalog's elements only.
\<close>

lemma select_terms_filter:
  "select_terms terms_list selected_tags selected_week due_only now_iso sched =
     filter (\<lambda>e. spec_tag_match selected_tags e \<and> week_key_match selected_week e \<and>
                 (due_only \<longrightarrow> spec_due now_iso sched e)) terms_list"
  by (simp add: select_terms_def filtered_tags_terms_filter week_filtered_filter
      filtered_terms_filter conj_commute conj_left_commute)

lemma select_terms_reordered:
  "mset terms_list' = mset terms_list \<Longrightarrow>
   mset (select_terms terms_list' selected_tags selected_week due_only now_iso sched) =
   mset (select_terms terms_list selected_tags selected_week due_only now_iso sched)"
  by (simp add: select_terms_filter mset_filter)

lemma week_key_match_spec:
  "week e \<noteq> None \<Longrightarrow> week_key_match selected_week e = spec_week_match selected_week e"
  by (auto simp: week_key_match_def spec_week_match_def spec_week_def split: week_choice.splits)

text \<open>
  On a catalog in which every record has its \<^verbatim>\<open>week\<close> key, the result is what the
  specification asks for.
\<close>

lemma select_terms_meets_spec:
  assumes "\<forall>e \<in> set terms_list. week e \<noteq> None"
  shows "select_terms terms_list selected_tags selected_week due_only now_iso sched =
     filter (\<lambda>e. spec_tag_match selected_tags e \<and> spec_week_match selected_week e \<and>
                 (due_only \<longrightarrow> spec_due now_iso sched e)) terms_list"
  unfolding select_terms_filter
  by (rule filter_cong) (use assms in \<open>auto simp: week_key_match_spec\<close>)

text \<open>
  Claim C5. A catalog term without entry in the scheduler dict is always due: for every
  current time, the due filter keeps it, so with \<^verbatim>\<open>due_only\<close> set it is in the result
  exactly when it is in the result without the due filter; in particular, with no tag and
  no week selected every catalog term without entry is in the result.
\<close>

theorem absent_entry_always_due:
  assumes "sched (term_name e) = None"
  shows "(e \<in> set (select_terms terms_list selected_tags selected_week True now_iso sched)) =
         (e \<in> set (select_terms terms_list selected_tags selected_week False now_iso sched)) \<and>
         (e \<in> set terms_list \<longrightarrow> e \<in> set (select_terms terms_list [] All True now_iso sched))"
  using assms
  by (simp add: select_terms_filter spec_due_def spec_tag_match_def week_key_match_def)

theorem absent_entry_always_due_witness:
  "demo_sched ''veto'' = None \<and>
   \<lparr>term_name = ''veto'', tags = Some [''law''], week = Some 3\<rparr>
     \<in> set (select_terms demo_catalog [''law''] (Week 3) True ''2026-11-03T10:00:00'' demo_sched) \<and>
   \<lparr>term_name = ''veto'', tags = Some [''law''], week = Some 3\<rparr>
     \<in> set (select_terms demo_catalog [] All True [] demo_sched)"
  using absent_entry_always_due [of demo_sched
      "\<lparr>term_name = ''veto'', tags = Some [''law''], week = Some 3\<rparr>"
      demo_catalog "[''law'']" "Week 3" "''2026-11-03T10:00:00''"]
    absent_entry_always_due [of demo_sched
      "\<lparr>term_name = ''veto'', tags = Some [''law''], week = Some 3\<rparr>"
      demo_catalog "[]" All "[]"]
  by (simp add: demo_sched_def demo_catalog_def select_terms_def filtered_terms_def
      week_filtered_def filtered_tags_terms_def get_tags_def)

text \<open>
  Claim C6 states that the result is exactly the set of catalog terms that pass the tag
  test and whose week is the selected week. The catalog's \<^verbatim>\<open>week\<close> is optional with
  default 0, and the week list of the sidebar is built with that default (line 218):
  for a record without \<^verbatim>\<open>week\<close> key it offers week 0. The filter of line 227 compares
  \<^verbatim>\<open>e.get("week")\<close>, without the default, so the record whose week is 0 by default is
  missing from the result for week 0.
\<close>

theorem select_terms_week_default:
  "week_options [\<lparr>term_name = ''lobby'', tags = None, week = None\<rparr>] = [All, Week 0] \<and>
   spec_tag_match [] \<lparr>term_name = ''lobby'', tags = None, week = None\<rparr> \<and>
   spec_week_match (Week 0) \<lparr>term_name = ''lobby'', tags = None, week = None\<rparr> \<and>
   select_terms [\<lparr>term_name = ''lobby'', tags = None, week = None\<rparr>] [] (Week 0) False
     ''2026-11-03T10:00:00'' Map.empty = []"
  by (simp add: week_options_def all_weeks_def spec_tag_match_def spec_week_match_def
      spec_week_def select_terms_def filtered_terms_def week_filtered_def filtered_tags_terms_def)

text \<open>
  The running example: tag \<^verbatim>\<open>econ\<close>, week 3, no due filter, on the catalog and on the
  catalog reversed.
\<close>

lemma select_terms_example:
  "select_terms demo_catalog [''econ''] (Week 3) False ''2026-11-03T10:00:00'' demo_sched =
     [\<lparr>term_name = ''tariff'', tags = Some [''econ'', ''trade''], week = Some 3\<rparr>,
      \<lparr>term_name = ''quota'', tags = Some [''econ''], week = Some 3\<rparr>] \<and>
   select_terms (rev demo_catalog) [''econ''] (Week 3) False ''2026-11-03T10:00:00'' demo_sched =
     [\<lparr>term_name = ''quota'', tags = Some [''econ''], week = Some 3\<rparr>,
      \<lparr>term_name = ''tariff'', tags = Some [''econ'', ''trade''], week = Some 3\<rparr>]"
  by (simp add: select_terms_filter demo_catalog_def spec_tag_match_def week_key_match_def
      get_tags_def)

section \<open>Properties of the persistence functions\<close>

text \<open>
  Claim C8. When \<^verbatim>\<open>progress.json\<close> is absent, \<^verbatim>\<open>load_progress\<close> returns the empty
  snapshot, with an empty list of known terms and an empty scheduler dict, and raises
  nothing; when the file is present it returns what \<^verbatim>\<open>json.load\<close> decodes from it.
\<close>

theorem load_progress_absent_present:
  "(files PROGRESS_PATH = None \<longrightarrow>
      load_progress json_load files =
        Inr \<lparr>snap_known_terms = Some [], snap_scheduler = Some Map.empty\<rparr>) \<and>
   (files PROGRESS_PATH = Some stored \<longrightarrow> load_progress json_load files = json_load stored)"
  by (simp add: load_progress_def)

theorem load_progress_absent_present_witness:
  "load_progress Inr (Map.empty :: string \<rightharpoonup> snapshot) =
     Inr \<lparr>snap_known_terms = Some [], snap_scheduler = Some Map.empty\<rparr> \<and>
   load_progress Inr (fs reviewed_state) = Inr (progress_data reviewed_state)"
  using load_progress_absent_present [where files = "Map.empty :: string \<rightharpoonup> snapshot"
      and json_load = Inr and stored = "progress_data fresh_state"]
    load_progress_absent_present [where files = "fs reviewed_state"
      and stored = "progress_data reviewed_state" and json_load = Inr]
  by (simp add: reviewed_state_def Let_def)



section \<open>Which operation changes which part\<close>

lemma startup_in_sync: "startup json_load files = Inr st \<Longrightarrow> scheduler_in_sync st"
  by (auto simp: startup_def scheduler_in_sync_def split: sum.splits)

lemma mark_known_in_sync:
  "scheduler_in_sync st \<Longrightarrow> scheduler_in_sync (mark_known json_dump py_list choice st)"
  by (simp add: scheduler_in_sync_def mark_known_def Let_def get_scheduler_def)

lemma mark_unknown_in_sync:
  "scheduler_in_sync st \<Longrightarrow> scheduler_in_sync (mark_unknown json_dump py_list choice st)"
  by (simp add: scheduler_in_sync_def mark_unknown_def Let_def get_scheduler_def)

lemma clear_all_progress_in_sync: "scheduler_in_sync (clear_all_progress json_dump st)"
  by (simp add: scheduler_in_sync_def clear_all_progress_def Let_def get_scheduler_def)

lemma schedule_next_cases:
  assumes "schedule_next json_dump iso_after trm quality st = Inr st'"
  obtains e where
    "st' = st\<lparr>scheduler := (scheduler st)(trm \<mapsto> e),
              progress_data := (progress_data st)\<lparr>snap_scheduler := Some ((scheduler st)(trm \<mapsto> e))\<rparr>,
              fs := save_progress json_dump
                ((progress_data st)\<lparr>snap_scheduler := Some ((scheduler st)(trm \<mapsto> e))\<rparr>) (fs st)\<rparr>"
  using assms
  by (auto simp: schedule_next_def Let_def split: option.splits if_splits)

lemma schedule_next_in_sync:
  "schedule_next json_dump iso_after trm quality st = Inr st' \<Longrightarrow> scheduler_in_sync st'"
  by (erule schedule_next_cases) (simp add: scheduler_in_sync_def get_scheduler_def)

text \<open>
  Claim C10. \<^verbatim>\<open>Mark as Known\<close> and \<^verbatim>\<open>Mark as Unknown\<close> change the known terms only: the
  scheduler dict and the \<^verbatim>\<open>scheduler\<close> field of the snapshot, hence every entry of it,
  stay as they were. \<^verbatim>\<open>schedule_next\<close> changes the scheduler entry of the given term
  only: every other entry of the scheduler dict, the set of known terms and the
  \<^verbatim>\<open>known_terms\<close> field of the snapshot stay as they were, and so does every other entry
  of the snapshot's scheduler when it held the content of the scheduler dict before the
  call, as it does from the start of the script on. In all three cases the file written
  holds the snapshot just described.
\<close>

theorem operations_frame:
  "(let st' = mark_known json_dump py_list choice st
    in scheduler st' = scheduler st \<and>
       snap_scheduler (progress_data st') = snap_scheduler (progress_data st) \<and>
       fs st' PROGRESS_PATH = Some (json_dump (progress_data st'))) \<and>
   (let st' = mark_unknown json_dump py_list choice st
    in scheduler st' = scheduler st \<and>
       snap_scheduler (progress_data st') = snap_scheduler (progress_data st) \<and>
       fs st' PROGRESS_PATH = Some (json_dump (progress_data st'))) \<and>
   (schedule_next json_dump iso_after trm quality st = Inr st2 \<longrightarrow>
      known_terms st2 = known_terms st \<and>
      snap_known_terms (progress_data st2) = snap_known_terms (progress_data st) \<and>
      (\<forall>t. t \<noteq> trm \<longrightarrow> scheduler st2 t = scheduler st t) \<and>
      (scheduler_in_sync st \<longrightarrow>
         (\<forall>t. t \<noteq> trm \<longrightarrow>
            get_scheduler (progress_data st2) t = get_scheduler (progress_data st) t)) \<and>
      fs st2 PROGRESS_PATH = Some (json_dump (progress_data st2)))"
proof (intro conjI impI)
  show "let st' = mark_known json_dump py_list choice st
    in scheduler st' = scheduler st \<and>
       snap_scheduler (progress_data st') = snap_scheduler (progress_data st) \<and>
       fs st' PROGRESS_PATH = Some (json_dump (progress_data st'))"
    by (simp add: mark_known_def Let_def save_progress_def)
  show "let st' = mark_unknown json_dump py_list choice st
    in scheduler st' = scheduler st \<and>
       snap_scheduler (progress_data st') = snap_scheduler (progress_data st) \<and>
       fs st' PROGRESS_PATH = Some (json_dump (progress_data st'))"
    by (simp add: mark_unknown_def Let_def save_progress_def)
next
  assume a: "schedule_next json_dump iso_after trm quality st = Inr st2"
  then show "known_terms st2 = known_terms st"
    and "snap_known_terms (progress_data st2) = snap_known_terms (progress_data st)"
    and "\<forall>t. t \<noteq> trm \<longrightarrow> scheduler st2 t = scheduler st t"
    and "fs st2 PROGRESS_PATH = Some (json_dump (progress_data st2))"
    by (auto elim!: schedule_next_cases simp: save_progress_def)
  assume "scheduler_in_sync st"
  with a show "\<forall>t. t \<noteq> trm \<longrightarrow>
            get_scheduler (progress_data st2) t = get_scheduler (progress_data st) t"
    by (auto elim!: schedule_next_cases simp: scheduler_in_sync_def get_scheduler_def)
qed

theorem operations_frame_witness:
  "scheduler (mark_known id sorted_list_of_set ''veto'' reviewed_state) = scheduler reviewed_state \<and>
   snap_scheduler (progress_data (mark_known id sorted_list_of_set ''veto'' reviewed_state)) =
     snap_scheduler (progress_data reviewed_state) \<and>
   scheduler (mark_unknown id sorted_list_of_set ''Z'' reviewed_state) = scheduler reviewed_state \<and>
   snap_scheduler (progress_data (mark_unknown id sorted_list_of_set ''Z'' reviewed_state)) =
     snap_scheduler (progress_data reviewed_state) \<and>
   scheduler_in_sync reviewed_state \<and>
   (\<exists>st2. schedule_next id (const_clock ''2026-11-04T09:00:00'') ''Y'' 4 reviewed_state = Inr st2 \<and>
      known_terms st2 = {''Z''} \<and>
      snap_known_terms (progress_data st2) = Some [''Z''] \<and>
      scheduler st2 ''X'' = scheduler reviewed_state ''X'' \<and>
      get_scheduler (progress_data st2) ''X'' = get_scheduler (progress_data reviewed_state) ''X'' \<and>
      fs st2 PROGRESS_PATH = Some (progress_data st2))"
proof -
  let ?r = "schedule_next id (const_clock ''2026-11-04T09:00:00'') ''Y'' 4 reviewed_state"
  have run: "?r = Inr (projr ?r)"
    by (simp add: schedule_next_def const_clock_def Let_def)
  have sync: "scheduler_in_sync reviewed_state"
    by (simp add: scheduler_in_sync_def reviewed_state_def get_scheduler_def Let_def)
  have known: "known_terms reviewed_state = {''Z''}"
    "snap_known_terms (progress_data reviewed_state) = Some [''Z'']"
    by (simp_all add: reviewed_state_def Let_def)
  from operations_frame [where json_dump = id and py_list = sorted_list_of_set
      and choice = "''veto''" and st = reviewed_state
      and iso_after = "const_clock ''2026-11-04T09:00:00''" and trm = "''Y''" and quality = 4
      and ?st2.0 = "projr ?r"]
    operations_frame [where json_dump = id and py_list = sorted_list_of_set
      and choice = "''Z''" and st = reviewed_state
      and iso_after = "const_clock ''2026-11-04T09:00:00''" and trm = "''Y''" and quality = 4
      and ?st2.0 = "projr ?r"]
    run sync known
  have fr: "known_terms (projr ?r) = known_terms reviewed_state"
      "snap_known_terms (progress_data (projr ?r)) = snap_known_terms (progress_data reviewed_state)"
      "scheduler (projr ?r) ''X'' = scheduler reviewed_state ''X''"
      "get_scheduler (progress_data (projr ?r)) ''X'' = get_scheduler (progress_data reviewed_state) ''X''"
      "fs (projr ?r) PROGRESS_PATH = Some (id (progress_data (projr ?r)))"
    and mk: "scheduler (mark_known id sorted_list_of_set ''veto'' reviewed_state) = scheduler reviewed_state"
      "snap_scheduler (progress_data (mark_known id sorted_list_of_set ''veto'' reviewed_state)) =
        snap_scheduler (progress_data reviewed_state)"
    and mu: "scheduler (mark_unknown id sorted_list_of_set ''Z'' reviewed_state) = scheduler reviewed_state"
      "snap_scheduler (progress_data (mark_unknown id sorted_list_of_set ''Z'' reviewed_state)) =
        snap_scheduler (progress_data reviewed_state)"
    by (simp_all add: Let_def)
  from run fr known have "\<exists>st2. ?r = Inr st2 \<and>
      known_terms st2 = {''Z''} \<and>
      snap_known_terms (progress_data st2) = Some [''Z''] \<and>
      scheduler st2 ''X'' = scheduler reviewed_state ''X'' \<and>
      get_scheduler (progress_data st2) ''X'' = get_scheduler (progress_data reviewed_state) ''X'' \<and>
      fs st2 PROGRESS_PATH = Some (progress_data st2)"
    by (intro exI [of _ "projr ?r"]) simp
  with mk mu sync show ?thesis by blast
qed

section \<open>Properties of the similarity ratio\<close>

subsection \<open>\<^verbatim>\<open>find_longest_match\<close> returns a block inside its window, so the work list empties\<close>










subsection \<open>The content of \<open>b2j\<close>\<close>



subsection \<open>A sequence against itself: the longest block is the whole sequence\<close>




















subsection \<open>Normalisation of the two texts\<close>









end
